theory Spec2Isabelle
  imports Main
begin

section \<open>Python strings\<close>

text \<open>
  A Python \<open>str\<close> is a sequence of Unicode code points, and \<open>len\<close> counts code
  points. A string is modelled as the list of its code points. The predicates
  \<open>str.isupper\<close>, \<open>str.islower\<close>, \<open>str.isdigit\<close> and \<open>str.isalnum\<close> read the
  Unicode character database of the interpreter. On ASCII (code points below 128) their
  values are written out here; for every other code point they are read from a
  \<open>unicode\<close> table that the definitions take as an argument, so that every theorem
  holds for whatever the character database says beyond ASCII.
\<close>

type_synonym pychar = nat
type_synonym pystr = "pychar list"

definition ascii :: "string \<Rightarrow> pystr" where
  "ascii s = map of_char s"

record unicode =
  uni_isupper :: "pychar \<Rightarrow> bool"
  uni_islower :: "pychar \<Rightarrow> bool"
  uni_isdigit :: "pychar \<Rightarrow> bool"
  uni_isalnum :: "pychar \<Rightarrow> bool"

definition isupper :: "unicode \<Rightarrow> pychar \<Rightarrow> bool" where
  "isupper U c = (if c < 128 then 65 \<le> c \<and> c \<le> 90 else uni_isupper U c)"

definition islower :: "unicode \<Rightarrow> pychar \<Rightarrow> bool" where
  "islower U c = (if c < 128 then 97 \<le> c \<and> c \<le> 122 else uni_islower U c)"

definition isdigit :: "unicode \<Rightarrow> pychar \<Rightarrow> bool" where
  "isdigit U c = (if c < 128 then 48 \<le> c \<and> c \<le> 57 else uni_isdigit U c)"

definition isalnum :: "unicode \<Rightarrow> pychar \<Rightarrow> bool" where
  "isalnum U c =
     (if c < 128 then (65 \<le> c \<and> c \<le> 90) \<or> (97 \<le> c \<and> c \<le> 122) \<or> (48 \<le> c \<and> c \<le> 57)
      else uni_isalnum U c)"

text \<open>
  \<open>value.isalnum()\<close> on a whole string: false on the empty string, otherwise true when
  every character is alphanumeric.
\<close>

definition str_isalnum :: "unicode \<Rightarrow> pystr \<Rightarrow> bool" where
  "str_isalnum U s = (s \<noteq> [] \<and> list_all (isalnum U) s)"

text \<open>
  The Latin-1 Supplement block (U+0080 to U+00FF) of the Unicode character database, as
  Python reads it: the letters are U+00C0..U+00D6 and U+00D8..U+00DE (uppercase),
  U+00DF..U+00F6 and U+00F8..U+00FF (lowercase), the micro sign and the two ordinal
  indicators (lowercase); the superscripts one, two and three are digits; the three
  vulgar fractions are numeric. It is used for concrete inputs only and says nothing
  (false) beyond U+00FF.
\<close>

definition latin1_upper :: "pychar \<Rightarrow> bool" where
  "latin1_upper c = ((192 \<le> c \<and> c \<le> 214) \<or> (216 \<le> c \<and> c \<le> 222))"

definition latin1_lower :: "pychar \<Rightarrow> bool" where
  "latin1_lower c =
     (c = 170 \<or> c = 181 \<or> c = 186 \<or> (223 \<le> c \<and> c \<le> 246) \<or> (248 \<le> c \<and> c \<le> 255))"

definition latin1_digit :: "pychar \<Rightarrow> bool" where
  "latin1_digit c = (c = 178 \<or> c = 179 \<or> c = 185)"

definition latin1_supplement :: unicode where
  "latin1_supplement =
     \<lparr>uni_isupper = latin1_upper,
      uni_islower = latin1_lower,
      uni_isdigit = latin1_digit,
      uni_isalnum = (\<lambda>c. latin1_upper c \<or> latin1_lower c \<or> latin1_digit c
                          \<or> (188 \<le> c \<and> c \<le> 190))\<rparr>"

section \<open>The account entity (\<open>app/models/user_model.py\<close>)\<close>

datatype error =
    ValueError string
  | ValidationError
  | IntegrityError

datatype UserRole = ANONYMOUS | AUTHENTICATED | MANAGER | ADMIN

text \<open>
  A \<open>DateTime\<close> attribute holds either a Python \<open>datetime\<close> (a point in time) or the
  SQL expression \<open>func.now()\<close>, which the database evaluates when the row is flushed.
\<close>

datatype datetime = Datetime nat | Func_now

text \<open>
  One row of the \<open>users\<close> table. The primary key \<open>id\<close> is called \<open>user_id\<close> here.
  The columns \<open>created_at\<close> and \<open>updated_at\<close> are assigned by the database server and
  read by none of the operations below; they are left out.
\<close>

record User =
  user_id :: nat
  nickname :: pystr
  email :: pystr
  first_name :: "pystr option"
  last_name :: "pystr option"
  bio :: "pystr option"
  profile_picture_url :: "pystr option"
  linkedin_profile_url :: "pystr option"
  github_profile_url :: "pystr option"
  role :: UserRole
  is_professional :: bool
  professional_status_updated_at :: "datetime option"
  last_login_at :: "datetime option"
  failed_login_attempts :: int
  is_locked :: bool
  verification_token :: "pystr option"
  email_verified :: bool
  hashed_password :: pystr

subsection \<open>Attribute validators\<close>

definition validate_nickname :: "unicode \<Rightarrow> pystr \<Rightarrow> error + pystr" where
  "validate_nickname U v =
     (if \<not> str_isalnum U v then
        Inl (ValueError ''Nickname must contain only alphanumeric characters.'')
      else if length v < 3 \<or> length v > 50 then
        Inl (ValueError ''Nickname must be between 3 and 50 characters long.'')
      else Inr v)"

definition special_characters :: pystr where
  "special_characters = ascii ''!@#$%^&*()_+-=''"

definition validate_password :: "unicode \<Rightarrow> pystr \<Rightarrow> error + pystr" where
  "validate_password U v =
     (if length v < 8 then
        Inl (ValueError ''Password must be at least 8 characters long.'')
      else if \<not> list_ex (isupper U) v then
        Inl (ValueError ''Password must contain at least one uppercase letter.'')
      else if \<not> list_ex (islower U) v then
        Inl (ValueError ''Password must contain at least one lowercase letter.'')
      else if \<not> list_ex (isdigit U) v then
        Inl (ValueError ''Password must contain at least one digit.'')
      else if \<not> list_ex (\<lambda>c. c \<in> set special_characters) v then
        Inl (ValueError ''Password must contain at least one special character.'')
      else Inr v)"

subsection \<open>Mutators\<close>

definition lock_account :: "User \<Rightarrow> User" where
  "lock_account u = u\<lparr>is_locked := True\<rparr>"

definition unlock_account :: "User \<Rightarrow> User" where
  "unlock_account u = u\<lparr>is_locked := False\<rparr>"

definition verify_email :: "User \<Rightarrow> User" where
  "verify_email u = u\<lparr>email_verified := True\<rparr>"

definition has_role :: "User \<Rightarrow> UserRole \<Rightarrow> bool" where
  "has_role u role_name = (role u = role_name)"

definition update_professional_status :: "User \<Rightarrow> bool \<Rightarrow> User" where
  "update_professional_status u status =
     u\<lparr>is_professional := status, professional_status_updated_at := Some Func_now\<rparr>"


text \<open>
  Assigning \<open>hashed_password\<close> on an entity runs the validator registered for that
  attribute (\<open>@validates('hashed_password')\<close>) on the assigned value; the attribute is
  set only when the validator returns.
\<close>

definition set_hashed_password :: "unicode \<Rightarrow> User \<Rightarrow> pystr \<Rightarrow> error + User" where
  "set_hashed_password U u v =
     (case validate_password U v of
        Inl e \<Rightarrow> Inl e
      | Inr h \<Rightarrow> Inr (u\<lparr>hashed_password := h\<rparr>))"

section \<open>Collaborators of the service\<close>

text \<open>
  The request schema \<open>UserCreate\<close>, the hasher, the nickname and token generators, the
  settings and the email service live outside \<open>app/services/user_service.py\<close>. The
  service is modelled over an environment that supplies them:
  \<^item> \<open>UserCreate_schema\<close>: the result of \<open>UserCreate(**user_data).model_dump()\<close>, or the
    \<open>ValidationError\<close> it raises;
  \<^item> \<open>hash_password\<close>, \<open>verify_password\<close>: the credential hasher;
  \<^item> \<open>generate_nickname k\<close>: what the \<open>k\<close>-th call of \<open>generate_nickname()\<close> returns;
  \<^item> \<open>uuid4\<close>: the primary key drawn for a new row;
  \<^item> \<open>send_verification_email\<close>: false when the email service raises;
  \<^item> \<open>utc_now\<close>: the value of \<open>datetime.now(timezone.utc)\<close>.
\<close>

type_synonym user_data = "(string \<times> pystr) list"

record UserCreate =
  uc_email :: pystr
  uc_nickname :: "pystr option"
  uc_first_name :: "pystr option"
  uc_last_name :: "pystr option"
  uc_bio :: "pystr option"
  uc_profile_picture_url :: "pystr option"
  uc_linkedin_profile_url :: "pystr option"
  uc_github_profile_url :: "pystr option"
  uc_password :: pystr

record env =
  unicode_db :: unicode
  UserCreate_schema :: "user_data \<Rightarrow> error + UserCreate"
  hash_password :: "pystr \<Rightarrow> pystr"
  verify_password :: "pystr \<Rightarrow> pystr \<Rightarrow> bool"
  max_login_attempts :: int
  generate_nickname :: "nat \<Rightarrow> pystr"
  generate_verification_token :: pystr
  uuid4 :: nat
  send_verification_email :: "User \<Rightarrow> bool"
  utc_now :: nat

section \<open>The store\<close>

text \<open>
  The \<open>users\<close> table is the list of its rows. A query \<open>select(User).filter_by(...)\<close>
  followed by \<open>.scalars().first()\<close> is the first row that satisfies the filter.
  Committing a loaded, modified entity rewrites the row with its primary key; deleting
  an entity removes the row with its primary key; an insert is refused with an integrity
  error when the primary key or one of the unique columns is already taken. Every other
  statement is taken to succeed.
\<close>

definition fetch_user :: "User list \<Rightarrow> (User \<Rightarrow> bool) \<Rightarrow> User option" where
  "fetch_user db filters = find filters db"

definition get_by_id :: "User list \<Rightarrow> nat \<Rightarrow> User option" where
  "get_by_id db i = fetch_user db (\<lambda>r. user_id r = i)"

definition get_by_nickname :: "User list \<Rightarrow> pystr \<Rightarrow> User option" where
  "get_by_nickname db n = fetch_user db (\<lambda>r. nickname r = n)"

definition get_by_email :: "User list \<Rightarrow> pystr \<Rightarrow> User option" where
  "get_by_email db e = fetch_user db (\<lambda>r. email r = e)"

definition update_row :: "User list \<Rightarrow> User \<Rightarrow> User list" where
  "update_row db u = map (\<lambda>r. if user_id r = user_id u then u else r) db"

definition delete_row :: "User list \<Rightarrow> User \<Rightarrow> User list" where
  "delete_row db u = filter (\<lambda>r. user_id r \<noteq> user_id u) db"

definition insert_row :: "User list \<Rightarrow> User \<Rightarrow> error + User list" where
  "insert_row db u =
     (if list_ex (\<lambda>r. user_id r = user_id u \<or> nickname r = nickname u \<or> email r = email u) db
      then Inl IntegrityError
      else Inr (db @ [u]))"

text \<open>
  When the session writes an entity whose attribute holds the SQL expression
  \<open>func.now()\<close>, the database evaluates the expression to its current time \<open>t\<close> and
  stores that time. \<open>flush t\<close> is the entity as the database stores it at time \<open>t\<close>;
  \<open>commit t db u\<close> is \<open>session.add(u)\<close> followed by \<open>session.commit()\<close> at that time.
  The service below assigns Python values only, for which there is nothing to evaluate.
\<close>

definition evaluate :: "nat \<Rightarrow> datetime option \<Rightarrow> datetime option" where
  "evaluate t v = (case v of Some Func_now \<Rightarrow> Some (Datetime t) | _ \<Rightarrow> v)"

definition flush :: "nat \<Rightarrow> User \<Rightarrow> User" where
  "flush t u =
     u\<lparr>professional_status_updated_at := evaluate t (professional_status_updated_at u),
       last_login_at := evaluate t (last_login_at u)\<rparr>"

definition commit :: "nat \<Rightarrow> User list \<Rightarrow> User \<Rightarrow> User list" where
  "commit t db u = update_row db (flush t u)"

section \<open>The account service (\<open>app/services/user_service.py\<close>)\<close>

subsection \<open>Registration\<close>

text \<open>
  The loop \<open>while await cls.get_by_nickname(session, new_nickname)\<close> draws nicknames
  until one is free. It has no bound: where it never finds a free nickname the result
  is \<open>None\<close> (the call does not return).
\<close>

partial_function (option) fresh_nickname ::
  "User list \<Rightarrow> (nat \<Rightarrow> pystr) \<Rightarrow> nat \<Rightarrow> pystr option" where
  "fresh_nickname db gen k =
     (if get_by_nickname db (gen k) \<noteq> None then fresh_nickname db gen (Suc k)
      else Some (gen k))"

declare fresh_nickname.simps [code]

text \<open>
  \<open>User(**validated_data)\<close> assigns the keys of the dictionary in order: the fields of
  the schema first, \<open>hashed_password\<close> (added by \<open>create\<close>) last; the validators of
  \<open>nickname\<close> and \<open>hashed_password\<close> run on assignment. The column defaults are the ones
  the declaration of the table gives.
\<close>

definition User_init :: "unicode \<Rightarrow> nat \<Rightarrow> UserCreate \<Rightarrow> pystr \<Rightarrow> pystr \<Rightarrow> error + User" where
  "User_init U new_id v new_nickname hashed =
     (case validate_nickname U new_nickname of
        Inl e \<Rightarrow> Inl e
      | Inr n \<Rightarrow>
          (case validate_password U hashed of
             Inl e \<Rightarrow> Inl e
           | Inr h \<Rightarrow>
               Inr \<lparr>user_id = new_id, nickname = n, email = uc_email v,
                    first_name = uc_first_name v, last_name = uc_last_name v, bio = uc_bio v,
                    profile_picture_url = uc_profile_picture_url v,
                    linkedin_profile_url = uc_linkedin_profile_url v,
                    github_profile_url = uc_github_profile_url v,
                    role = ANONYMOUS, is_professional = False,
                    professional_status_updated_at = None, last_login_at = None,
                    failed_login_attempts = 0, is_locked = False,
                    verification_token = None, email_verified = False,
                    hashed_password = h\<rparr>))"

text \<open>
  \<open>create\<close> returns the new account or \<open>None\<close>, and the table afterwards. Every
  exception raised inside its \<open>try\<close> block is caught and turned into \<open>None\<close>. The outer
  \<open>option\<close> is \<open>None\<close> when the nickname loop does not end.
\<close>

definition create :: "env \<Rightarrow> User list \<Rightarrow> user_data \<Rightarrow> (User option \<times> User list) option" where
  "create E db data =
     (case UserCreate_schema E data of
        Inl e \<Rightarrow> Some (None, db)
      | Inr validated_data \<Rightarrow>
          if get_by_email db (uc_email validated_data) \<noteq> None then Some (None, db)
          else
            let hashed = hash_password E (uc_password validated_data) in
            (case fresh_nickname db (generate_nickname E) 0 of
               None \<Rightarrow> None
             | Some new_nickname \<Rightarrow>
                 (case User_init (unicode_db E) (uuid4 E) validated_data new_nickname hashed of
                    Inl e \<Rightarrow> Some (None, db)
                  | Inr u \<Rightarrow>
                      let new_user = u\<lparr>verification_token := Some (generate_verification_token E)\<rparr> in
                      (case insert_row db new_user of
                         Inl e \<Rightarrow> Some (None, db)
                       | Inr db' \<Rightarrow>
                           if send_verification_email E new_user then Some (Some new_user, db')
                           else Some (None, db')))))"

definition register_user :: "env \<Rightarrow> User list \<Rightarrow> user_data \<Rightarrow> (User option \<times> User list) option" where
  "register_user E db data = create E db data"

subsection \<open>Deletion\<close>

definition delete :: "User list \<Rightarrow> nat \<Rightarrow> bool \<times> User list" where
  "delete db i =
     (case get_by_id db i of
        None \<Rightarrow> (False, db)
      | Some user \<Rightarrow> (True, delete_row db user))"

subsection \<open>Login\<close>

definition login_user :: "env \<Rightarrow> User list \<Rightarrow> pystr \<Rightarrow> pystr \<Rightarrow> User option \<times> User list" where
  "login_user E db e password =
     (case get_by_email db e of
        None \<Rightarrow> (None, db)
      | Some user \<Rightarrow>
          if \<not> email_verified user then (None, db)
          else if is_locked user then (None, db)
          else if verify_password E password (hashed_password user) then
            (let user' = user\<lparr>failed_login_attempts := 0,
                               last_login_at := Some (Datetime (utc_now E))\<rparr>
             in (Some user', update_row db user'))
          else
            (let user1 = user\<lparr>failed_login_attempts := failed_login_attempts user + 1\<rparr>;
                 user2 = (if failed_login_attempts user1 \<ge> max_login_attempts E
                          then user1\<lparr>is_locked := True\<rparr> else user1)
             in (None, update_row db user2)))"

subsection \<open>Password reset\<close>

text \<open>
  The hash is computed first. An exception raised while the entity is updated (the
  validator of \<open>hashed_password\<close> is the one that can raise) is caught: the call returns
  \<open>False\<close> and nothing has been committed.
\<close>

definition reset_password :: "env \<Rightarrow> User list \<Rightarrow> nat \<Rightarrow> pystr \<Rightarrow> bool \<times> User list" where
  "reset_password E db i new_password =
     (let hashed = hash_password E new_password in
      case get_by_id db i of
        None \<Rightarrow> (False, db)
      | Some user \<Rightarrow>
          (case set_hashed_password (unicode_db E) user hashed of
             Inl e \<Rightarrow> (False, db)
           | Inr user1 \<Rightarrow>
               (let user2 = user1\<lparr>failed_login_attempts := 0, is_locked := False\<rparr>
                in (True, update_row db user2))))"


section \<open>The password policy and the nickname pattern as the specification words them\<close>

text \<open>
  The five rules of the password policy, in the order in which the specification lists
  them, each with the reason reported when it is the first one to fail.
\<close>

datatype policy_rule = Min_length | Has_uppercase | Has_lowercase | Has_digit | Has_special

definition listed_rules :: "policy_rule list" where
  "listed_rules = [Min_length, Has_uppercase, Has_lowercase, Has_digit, Has_special]"

fun rule_holds :: "unicode \<Rightarrow> policy_rule \<Rightarrow> pystr \<Rightarrow> bool" where
  "rule_holds U Min_length v = (8 \<le> length v)"
| "rule_holds U Has_uppercase v = (1 \<le> length (filter (isupper U) v))"
| "rule_holds U Has_lowercase v = (1 \<le> length (filter (islower U) v))"
| "rule_holds U Has_digit v = (1 \<le> length (filter (isdigit U) v))"
| "rule_holds U Has_special v = (1 \<le> length (filter (\<lambda>c. c \<in> set special_characters) v))"

fun reason :: "policy_rule \<Rightarrow> string" where
  "reason Min_length = ''Password must be at least 8 characters long.''"
| "reason Has_uppercase = ''Password must contain at least one uppercase letter.''"
| "reason Has_lowercase = ''Password must contain at least one lowercase letter.''"
| "reason Has_digit = ''Password must contain at least one digit.''"
| "reason Has_special = ''Password must contain at least one special character.''"

definition first_failing_rule :: "unicode \<Rightarrow> pystr \<Rightarrow> policy_rule option" where
  "first_failing_rule U v = find (\<lambda>r. \<not> rule_holds U r v) listed_rules"

definition policy_check :: "unicode \<Rightarrow> pystr \<Rightarrow> error + pystr" where
  "policy_check U v =
     (case first_failing_rule U v of
        None \<Rightarrow> Inr v
      | Some r \<Rightarrow> Inl (ValueError (reason r)))"

text \<open>
  A full match of the regular expression \<open>[A-Za-z0-9]{3,50}\<close>: between 3 and 50
  characters, each of them in one of the three ASCII ranges.
\<close>

definition in_A_Za_z0_9 :: "pychar \<Rightarrow> bool" where
  "in_A_Za_z0_9 c =
     ((of_char CHR ''A'' \<le> c \<and> c \<le> of_char CHR ''Z'')
      \<or> (of_char CHR ''a'' \<le> c \<and> c \<le> of_char CHR ''z'')
      \<or> (of_char CHR ''0'' \<le> c \<and> c \<le> of_char CHR ''9''))"

definition matches_nickname_pattern :: "pystr \<Rightarrow> bool" where
  "matches_nickname_pattern v =
     (3 \<le> length v \<and> length v \<le> 50 \<and> list_all in_A_Za_z0_9 v)"

definition is_ascii :: "pystr \<Rightarrow> bool" where
  "is_ascii v = list_all (\<lambda>c. c < 128) v"

section \<open>Example collaborators and accounts\<close>

text \<open>
  Two hashers that meet the interface of the credential hasher. The first prefixes the
  plaintext with a fixed header in the style of a modular crypt string; the second
  writes each code point (modulo 256) as two lowercase hexadecimal digits, as a
  hexadecimal digest does.
\<close>

definition crypt_hash :: "pystr \<Rightarrow> pystr" where
  "crypt_hash p = ascii ''$2b$12$Qx'' @ p"

definition hex_digit :: "nat \<Rightarrow> pychar" where
  "hex_digit d = (if d < 10 then 48 + d else 87 + d)"

definition hex_hash :: "pystr \<Rightarrow> pystr" where
  "hex_hash p = concat (map (\<lambda>c. [hex_digit (c div 16 mod 16), hex_digit (c mod 16)]) p)"

definition example_schema :: "user_data \<Rightarrow> error + UserCreate" where
  "example_schema d =
     (case (map_of d ''email'', map_of d ''password'') of
        (Some e, Some p) \<Rightarrow>
          Inr \<lparr>uc_email = e, uc_nickname = map_of d ''nickname'',
               uc_first_name = map_of d ''first_name'', uc_last_name = map_of d ''last_name'',
               uc_bio = map_of d ''bio'',
               uc_profile_picture_url = map_of d ''profile_picture_url'',
               uc_linkedin_profile_url = map_of d ''linkedin_profile_url'',
               uc_github_profile_url = map_of d ''github_profile_url'',
               uc_password = p\<rparr>
      | _ \<Rightarrow> Inl ValidationError)"

definition crypt_env :: env where
  "crypt_env =
     \<lparr>unicode_db = latin1_supplement,
      UserCreate_schema = example_schema,
      hash_password = crypt_hash,
      verify_password = (\<lambda>p h. h = crypt_hash p),
      max_login_attempts = 3,
      generate_nickname = (\<lambda>k. ascii ''cleverfox'' @ replicate k (of_char CHR ''7'')),
      generate_verification_token = ascii ''t0ken'',
      uuid4 = 2,
      send_verification_email = (\<lambda>u. True),
      utc_now = 1000\<rparr>"

definition hex_env :: env where
  "hex_env = crypt_env\<lparr>hash_password := hex_hash, verify_password := (\<lambda>p h. h = hex_hash p)\<rparr>"

definition alice :: User where
  "alice =
     \<lparr>user_id = 1, nickname = ascii ''alice1'', email = ascii ''alice@example.com'',
      first_name = None, last_name = None, bio = None,
      profile_picture_url = None, linkedin_profile_url = None, github_profile_url = None,
      role = AUTHENTICATED, is_professional = False,
      professional_status_updated_at = None, last_login_at = None,
      failed_login_attempts = 2, is_locked = False,
      verification_token = None, email_verified = True,
      hashed_password = crypt_hash (ascii ''Secret#123'')\<rparr>"


definition unverified_alice :: User where
  "unverified_alice = alice\<lparr>email_verified := False\<rparr>"

definition locked_alice :: User where
  "locked_alice = alice\<lparr>failed_login_attempts := 3, is_locked := True\<rparr>"

definition bob_request :: UserCreate where
  "bob_request =
     \<lparr>uc_email = ascii ''bob@example.com'', uc_nickname = None,
      uc_first_name = None, uc_last_name = None, uc_bio = None,
      uc_profile_picture_url = None, uc_linkedin_profile_url = None,
      uc_github_profile_url = None, uc_password = ascii ''Secret#123''\<rparr>"

definition bob :: User where
  "bob =
     \<lparr>user_id = 2, nickname = ascii ''cleverfox'', email = ascii ''bob@example.com'',
      first_name = None, last_name = None, bio = None,
      profile_picture_url = None, linkedin_profile_url = None, github_profile_url = None,
      role = ANONYMOUS, is_professional = False,
      professional_status_updated_at = None, last_login_at = None,
      failed_login_attempts = 0, is_locked = False,
      verification_token = Some (ascii ''t0ken''), email_verified = False,
      hashed_password = crypt_hash (ascii ''Secret#123'')\<rparr>"

definition bob_data :: user_data where
  "bob_data = [(''email'', ascii ''bob@example.com''), (''password'', ascii ''Secret#123'')]"

section \<open>Properties of the validators\<close>

lemma list_ex_filter_length: "list_ex P xs \<longleftrightarrow> 1 \<le> length (filter P xs)"
  by (induction xs) auto

lemma every_rule_listed: "r \<in> set listed_rules"
  by (cases r) (simp_all add: listed_rules_def)

lemma reason_inj: "reason r = reason r' \<Longrightarrow> r = r'"
  by (cases r; cases r'; simp)

lemma isalnum_ascii: "c < 128 \<Longrightarrow> isalnum U c = in_A_Za_z0_9 c"
  by (simp add: isalnum_def in_A_Za_z0_9_def)

text \<open>
  Claim C5. The validator accepts a candidate exactly when all five rules hold (length at
  least 8, an uppercase letter, a lowercase letter, a digit, a character of the fixed
  special-character set), it returns the candidate unchanged then, and when it rejects
  it reports the reason of the first rule, in the listed order, that fails.
\<close>

theorem validate_password_policy:
  "((\<exists>x. validate_password U v = Inr x) \<longleftrightarrow> (\<forall>r. rule_holds U r v))
   \<and> (case first_failing_rule U v of
        None \<Rightarrow> validate_password U v = Inr v
      | Some r \<Rightarrow> validate_password U v = Inl (ValueError (reason r)))"
proof -
  have eq: "validate_password U v = policy_check U v"
    by (simp add: validate_password_def policy_check_def first_failing_rule_def
        listed_rules_def list_ex_filter_length)
  have all: "(\<forall>r. rule_holds U r v) \<longleftrightarrow> (\<forall>r \<in> set listed_rules. rule_holds U r v)"
    using every_rule_listed by blast
  have accept: "(\<exists>x. validate_password U v = Inr x) \<longleftrightarrow> (\<forall>r. rule_holds U r v)"
    unfolding all
    by (simp add: validate_password_def listed_rules_def list_ex_filter_length)
  have report: "case first_failing_rule U v of
        None \<Rightarrow> validate_password U v = Inr v
      | Some r \<Rightarrow> validate_password U v = Inl (ValueError (reason r))"
    unfolding eq policy_check_def by (simp split: option.split)
  from accept report show ?thesis by simp
qed

theorem validate_password_policy_witness:
  "validate_password latin1_supplement (ascii ''NoSpecial123'')
     = Inl (ValueError ''Password must contain at least one special character.'')
   \<and> validate_password latin1_supplement (ascii ''Strong*Password123'')
     = Inr (ascii ''Strong*Password123'')"
  using validate_password_policy [of latin1_supplement "ascii ''NoSpecial123''"]
    validate_password_policy [of latin1_supplement "ascii ''Strong*Password123''"]
  by (simp add: first_failing_rule_def listed_rules_def ascii_def isupper_def islower_def
      isdigit_def special_characters_def)

text \<open>
  Claim C6, as stated: nickname validation succeeds exactly on the strings that match
  \<open>[A-Za-z0-9]{3,50}\<close>. It fails on the nickname made of three times U+00E9 (e with
  acute accent): \<open>str.isalnum\<close> is true of it and its length is 3, so the validator
  returns it, and it does not match the pattern.
\<close>

theorem validate_nickname_pattern_counterexample:
  "validate_nickname latin1_supplement [233, 233, 233] = Inr [233, 233, 233]
   \<and> \<not> matches_nickname_pattern [233, 233, 233]"
  by (simp add: validate_nickname_def str_isalnum_def isalnum_def latin1_supplement_def
      latin1_lower_def matches_nickname_pattern_def in_A_Za_z0_9_def)

text \<open>
  Claim C6, amended. Nickname validation succeeds (and returns the nickname) exactly when
  every character is alphanumeric in the sense of \<open>str.isalnum\<close> and the length is
  between 3 and 50; every other string is rejected with an error. On nicknames of ASCII
  characters this is exactly a match of \<open>[A-Za-z0-9]{3,50}\<close>.
\<close>

theorem validate_nickname_alnum:
  "(validate_nickname U v = Inr v
      \<longleftrightarrow> list_all (isalnum U) v \<and> 3 \<le> length v \<and> length v \<le> 50)
   \<and> ((\<exists>e. validate_nickname U v = Inl (ValueError e))
      \<longleftrightarrow> \<not> (list_all (isalnum U) v \<and> 3 \<le> length v \<and> length v \<le> 50))
   \<and> (is_ascii v \<longrightarrow> (validate_nickname U v = Inr v \<longleftrightarrow> matches_nickname_pattern v))
   \<and> (is_ascii v \<longrightarrow>
        ((\<exists>e. validate_nickname U v = Inl (ValueError e)) \<longleftrightarrow> \<not> matches_nickname_pattern v))"
proof -
  have ascii: "list_all (isalnum U) v = list_all in_A_Za_z0_9 v" if "is_ascii v"
    using that by (auto simp: is_ascii_def list_all_iff isalnum_ascii)
  have ok: "validate_nickname U v = Inr v
      \<longleftrightarrow> list_all (isalnum U) v \<and> 3 \<le> length v \<and> length v \<le> 50"
    by (auto simp: validate_nickname_def str_isalnum_def)
  have bad: "(\<exists>e. validate_nickname U v = Inl (ValueError e))
      \<longleftrightarrow> \<not> (list_all (isalnum U) v \<and> 3 \<le> length v \<and> length v \<le> 50)"
    by (auto simp: validate_nickname_def str_isalnum_def)
  show ?thesis
    unfolding ok bad using ascii by (auto simp: matches_nickname_pattern_def)
qed

theorem validate_nickname_alnum_witness:
  "is_ascii (ascii ''JohnDoe123'')
   \<and> validate_nickname latin1_supplement (ascii ''JohnDoe123'') = Inr (ascii ''JohnDoe123'')
   \<and> is_ascii (ascii ''ab'')
   \<and> (\<exists>e. validate_nickname latin1_supplement (ascii ''ab'') = Inl (ValueError e))"
  using validate_nickname_alnum [of latin1_supplement "ascii ''JohnDoe123''"]
    validate_nickname_alnum [of latin1_supplement "ascii ''ab''"]
  by (simp add: is_ascii_def ascii_def matches_nickname_pattern_def in_A_Za_z0_9_def)


section \<open>Properties of the store\<close>

lemma find_mem_distinct:
  "u \<in> set db \<Longrightarrow> distinct (map f db) \<Longrightarrow> find (\<lambda>r. f r = f u) db = Some u"
  by (induction db) (auto simp: image_iff)

lemma get_by_email_mem:
  "u \<in> set db \<Longrightarrow> distinct (map email db) \<Longrightarrow> get_by_email db (email u) = Some u"
  by (simp add: get_by_email_def fetch_user_def find_mem_distinct)

lemma get_by_id_mem:
  "u \<in> set db \<Longrightarrow> distinct (map user_id db) \<Longrightarrow> get_by_id db (user_id u) = Some u"
  by (simp add: get_by_id_def fetch_user_def find_mem_distinct)

lemma get_by_id_Some: "get_by_id db i = Some u \<Longrightarrow> u \<in> set db \<and> user_id u = i"
  by (auto simp: get_by_id_def fetch_user_def find_Some_iff)

lemma get_by_email_Some: "get_by_email db e = Some u \<Longrightarrow> u \<in> set db \<and> email u = e"
  by (auto simp: get_by_email_def fetch_user_def find_Some_iff)

lemma get_by_id_update_row:
  "u \<in> set db \<Longrightarrow> user_id u' = user_id u \<Longrightarrow> get_by_id (update_row db u') (user_id u) = Some u'"
  by (induction db) (auto simp: get_by_id_def fetch_user_def update_row_def)

lemma get_by_email_update_row:
  "get_by_email db e = Some u \<Longrightarrow> user_id u' = user_id u \<Longrightarrow> email u' = e
   \<Longrightarrow> get_by_email (update_row db u') e = Some u'"
  by (induction db) (auto simp: get_by_email_def fetch_user_def update_row_def split: if_splits)

lemma get_by_email_append:
  "get_by_email db e = None \<Longrightarrow> email u = e \<Longrightarrow> get_by_email (db @ [u]) e = Some u"
  by (induction db) (auto simp: get_by_email_def fetch_user_def split: if_splits)

lemma get_by_id_delete_row: "get_by_id (delete_row db u) (user_id u) = None"
  by (auto simp: get_by_id_def fetch_user_def delete_row_def find_None_iff)

section \<open>Properties of the service\<close>

lemma login_user_wrong:
  assumes "get_by_email db e = Some u" "email_verified u" "\<not> is_locked u"
    "\<not> verify_password E password (hashed_password u)"
  shows "login_user E db e password =
     (None, update_row db
        (if max_login_attempts E \<le> failed_login_attempts u + 1
         then u\<lparr>failed_login_attempts := failed_login_attempts u + 1, is_locked := True\<rparr>
         else u\<lparr>failed_login_attempts := failed_login_attempts u + 1\<rparr>))"
  using assms by (simp add: login_user_def Let_def)

lemma login_user_right:
  assumes "get_by_email db e = Some u" "email_verified u" "\<not> is_locked u"
    "verify_password E password (hashed_password u)"
  shows "login_user E db e password =
     (Some (u\<lparr>failed_login_attempts := 0, last_login_at := Some (Datetime (utc_now E))\<rparr>),
      update_row db (u\<lparr>failed_login_attempts := 0, last_login_at := Some (Datetime (utc_now E))\<rparr>))"
  using assms by (simp add: login_user_def Let_def)

lemma validate_password_Inr: "validate_password U v = Inr h \<Longrightarrow> h = v"
  by (auto simp: validate_password_def split: if_splits)

lemma validate_password_Inl: "validate_password U v = Inl e \<Longrightarrow> \<exists>m. e = ValueError m"
  by (auto simp: validate_password_def split: if_splits)

lemma validate_password_accepts:
  "(\<exists>x. validate_password U v = Inr x) \<longleftrightarrow> (\<forall>r. rule_holds U r v)"
proof -
  have "(\<forall>r. rule_holds U r v) \<longleftrightarrow> (\<forall>r \<in> set listed_rules. rule_holds U r v)"
    using every_rule_listed by blast
  then show ?thesis
    by (simp add: validate_password_def listed_rules_def list_ex_filter_length)
qed

lemma validate_password_rejects:
  assumes "\<not> rule_holds U r v"
  shows "\<exists>m. validate_password U v = Inl (ValueError m)"
proof (cases "validate_password U v")
  case (Inl e)
  with validate_password_Inl[OF Inl] show ?thesis by auto
next
  case (Inr x)
  with validate_password_accepts[of U v] assms show ?thesis by blast
qed

lemma validate_nickname_Inl: "validate_nickname U v = Inl e \<Longrightarrow> \<exists>m. e = ValueError m"
  by (auto simp: validate_nickname_def split: if_splits)

lemma reset_password_accepted:
  assumes "get_by_id db i = Some u" "validate_password (unicode_db E) (hash_password E p) = Inr h"
  shows "reset_password E db i p =
     (True, update_row db (u\<lparr>hashed_password := hash_password E p,
                              failed_login_attempts := 0, is_locked := False\<rparr>))"
  using assms validate_password_Inr[OF assms(2)]
  by (simp add: reset_password_def set_hashed_password_def Let_def)

lemma reset_password_rejected:
  assumes "validate_password (unicode_db E) (hash_password E p) = Inl e"
  shows "reset_password E db i p = (False, db)"
  using assms
  by (simp add: reset_password_def set_hashed_password_def Let_def split: option.split)

lemma reset_password_missing:
  "get_by_id db i = None \<Longrightarrow> reset_password E db i p = (False, db)"
  by (simp add: reset_password_def Let_def)

lemma fresh_nickname_free:
  "get_by_nickname db (gen k) = None \<Longrightarrow> fresh_nickname db gen k = Some (gen k)"
  by (subst fresh_nickname.simps) simp

lemma fresh_nickname_taken:
  "get_by_nickname db (gen k) \<noteq> None \<Longrightarrow> fresh_nickname db gen k = fresh_nickname db gen (Suc k)"
  by (subst fresh_nickname.simps) simp

lemma create_success:
  assumes "create E db d = Some (Some u, db')"
  shows "\<exists>v. UserCreate_schema E d = Inr v \<and> email u = uc_email v
     \<and> get_by_email db (email u) = None \<and> db' = db @ [u]"
  using assms
  by (auto simp: create_def Let_def User_init_def insert_row_def
      split: sum.splits if_splits option.splits)

lemma create_duplicate:
  assumes "UserCreate_schema E d = Inr v" "get_by_email db (uc_email v) = Some u"
  shows "create E db d = Some (None, db)"
  using assms by (simp add: create_def)


lemma get_by_email_taken: "u \<in> set db \<Longrightarrow> get_by_email db (email u) \<noteq> None"
  by (auto simp: get_by_email_def fetch_user_def find_None_iff)

lemma create_taken:
  assumes "UserCreate_schema E d = Inr v" "get_by_email db (uc_email v) \<noteq> None"
  shows "create E db d = Some (None, db)"
  using assms by (simp add: create_def)

lemma create_rejected:
  assumes "UserCreate_schema E d = Inr v"
    and "fresh_nickname db (generate_nickname E) 0 = Some n"
    and "validate_password (unicode_db E) (hash_password E (uc_password v)) = Inl e"
  shows "create E db d = Some (None, db)"
  using assms by (simp add: create_def User_init_def Let_def split: sum.split)

lemma User_init_rejected:
  assumes "validate_password U h = Inl e"
  shows "\<exists>m. User_init U new_id v n h = Inl (ValueError m)"
  using assms validate_password_Inl[OF assms] validate_nickname_Inl[of U n]
  by (cases "validate_nickname U n") (auto simp: User_init_def)

section \<open>Login\<close>

text \<open>
  Claim C1. Take an account of the table (emails are unique) that is email-verified, not
  locked, and whose \<open>failed_login_attempts\<close> is \<open>max_login_attempts - 1\<close>. A call of
  \<open>login_user\<close> with its email and a password that does not verify returns no account,
  and the row stored for the account afterwards (looked up by email or by primary key)
  is the account with \<open>failed_login_attempts = max_login_attempts\<close> and
  \<open>is_locked = True\<close>.
\<close>

theorem login_user_lockout:
  assumes "u \<in> set db" and "distinct (map email db)"
    and "email_verified u" and "\<not> is_locked u"
    and "failed_login_attempts u = max_login_attempts E - 1"
    and "\<not> verify_password E password (hashed_password u)"
  shows "let u' = u\<lparr>failed_login_attempts := max_login_attempts E, is_locked := True\<rparr> in
     login_user E db (email u) password = (None, update_row db u')
     \<and> get_by_email (update_row db u') (email u) = Some u'
     \<and> get_by_id (update_row db u') (user_id u) = Some u'"
proof -
  have found: "get_by_email db (email u) = Some u"
    using assms(1,2) by (rule get_by_email_mem)
  have "login_user E db (email u) password =
      (None, update_row db (u\<lparr>failed_login_attempts := max_login_attempts E, is_locked := True\<rparr>))"
    using login_user_wrong[OF found assms(3,4,6)] assms(5) by simp
  moreover have "get_by_email
        (update_row db (u\<lparr>failed_login_attempts := max_login_attempts E, is_locked := True\<rparr>))
        (email u)
      = Some (u\<lparr>failed_login_attempts := max_login_attempts E, is_locked := True\<rparr>)"
    by (rule get_by_email_update_row[OF found]) simp_all
  moreover have "get_by_id
        (update_row db (u\<lparr>failed_login_attempts := max_login_attempts E, is_locked := True\<rparr>))
        (user_id u)
      = Some (u\<lparr>failed_login_attempts := max_login_attempts E, is_locked := True\<rparr>)"
    by (rule get_by_id_update_row[OF assms(1)]) simp
  ultimately show ?thesis by (simp add: Let_def)
qed

theorem login_user_lockout_witness:
  "failed_login_attempts alice = max_login_attempts crypt_env - 1
   \<and> login_user crypt_env [alice] (ascii ''alice@example.com'') (ascii ''Wrong#123'')
     = (None, [alice\<lparr>failed_login_attempts := 3, is_locked := True\<rparr>])
   \<and> get_by_id [alice\<lparr>failed_login_attempts := 3, is_locked := True\<rparr>] 1
     = Some (alice\<lparr>failed_login_attempts := 3, is_locked := True\<rparr>)"
  using login_user_lockout [of alice "[alice]" crypt_env "ascii ''Wrong#123''"]
  by (simp add: Let_def alice_def crypt_env_def ascii_def crypt_hash_def update_row_def)

text \<open>
  Claim C2. \<open>failed_login_attempts\<close> is reset to 0 by every successful login and by
  every successful password reset. For every email-verified, unlocked account of the
  table and a password that verifies against its stored hash, \<open>login_user\<close> sets
  \<open>failed_login_attempts\<close> to 0 and \<open>last_login_at\<close> to the current time, stores the
  account and returns it. For every account of the table, \<open>reset_password\<close> succeeds
  (returns true) exactly when the validator of \<open>hashed_password\<close> accepts the new hash,
  and every reset that succeeds leaves the stored account with the new hash, the lock
  cleared and \<open>failed_login_attempts = 0\<close>.
\<close>

theorem failed_login_attempts_cleared:
  "(u \<in> set db \<and> distinct (map email db) \<and> email_verified u \<and> \<not> is_locked u
      \<and> verify_password E password (hashed_password u) \<longrightarrow>
      (let u' = u\<lparr>failed_login_attempts := 0, last_login_at := Some (Datetime (utc_now E))\<rparr> in
         login_user E db (email u) password = (Some u', update_row db u')
         \<and> get_by_id (update_row db u') (user_id u) = Some u'
         \<and> failed_login_attempts u' = 0))
   \<and> (u \<in> set db \<and> distinct (map user_id db) \<longrightarrow>
      (fst (reset_password E db (user_id u) p)
         \<longleftrightarrow> (\<exists>h. validate_password (unicode_db E) (hash_password E p) = Inr h))
      \<and> (fst (reset_password E db (user_id u) p) \<longrightarrow>
          (\<exists>u'. get_by_id (snd (reset_password E db (user_id u) p)) (user_id u) = Some u'
             \<and> failed_login_attempts u' = 0
             \<and> u' = u\<lparr>hashed_password := hash_password E p,
                       failed_login_attempts := 0, is_locked := False\<rparr>)))"
proof -
  have login: "login_user E db (email u) password =
      (Some (u\<lparr>failed_login_attempts := 0, last_login_at := Some (Datetime (utc_now E))\<rparr>),
       update_row db (u\<lparr>failed_login_attempts := 0, last_login_at := Some (Datetime (utc_now E))\<rparr>))"
    if "u \<in> set db" "distinct (map email db)" "email_verified u" "\<not> is_locked u"
      "verify_password E password (hashed_password u)"
    using login_user_right[OF get_by_email_mem[OF that(1,2)] that(3,4,5)] .
  have stored: "get_by_id (update_row db (u\<lparr>failed_login_attempts := 0,
        last_login_at := Some (Datetime (utc_now E))\<rparr>)) (user_id u)
      = Some (u\<lparr>failed_login_attempts := 0, last_login_at := Some (Datetime (utc_now E))\<rparr>)"
    if "u \<in> set db"
    by (rule get_by_id_update_row[OF that]) simp
  have reset: "(fst (reset_password E db (user_id u) p)
         \<longleftrightarrow> (\<exists>h. validate_password (unicode_db E) (hash_password E p) = Inr h))
      \<and> (fst (reset_password E db (user_id u) p) \<longrightarrow>
          (\<exists>u'. get_by_id (snd (reset_password E db (user_id u) p)) (user_id u) = Some u'
             \<and> failed_login_attempts u' = 0
             \<and> u' = u\<lparr>hashed_password := hash_password E p,
                       failed_login_attempts := 0, is_locked := False\<rparr>))"
    if mem: "u \<in> set db" and pk: "distinct (map user_id db)"
  proof (cases "validate_password (unicode_db E) (hash_password E p)")
    case (Inl e)
    from reset_password_rejected[OF this] Inl show ?thesis by simp
  next
    case (Inr h)
    have "get_by_id (update_row db (u\<lparr>hashed_password := hash_password E p,
                   failed_login_attempts := 0, is_locked := False\<rparr>)) (user_id u)
      = Some (u\<lparr>hashed_password := hash_password E p,
                   failed_login_attempts := 0, is_locked := False\<rparr>)"
      by (rule get_by_id_update_row[OF mem]) simp
    with reset_password_accepted[OF get_by_id_mem[OF mem pk] Inr] Inr show ?thesis by simp
  qed
  from login stored reset show ?thesis by (simp add: Let_def)
qed

theorem failed_login_attempts_cleared_witness:
  "login_user crypt_env [alice] (ascii ''alice@example.com'') (ascii ''Secret#123'')
     = (Some (alice\<lparr>failed_login_attempts := 0, last_login_at := Some (Datetime 1000)\<rparr>),
        [alice\<lparr>failed_login_attempts := 0, last_login_at := Some (Datetime 1000)\<rparr>])
   \<and> failed_login_attempts alice = 2
   \<and> fst (reset_password crypt_env [alice] 1 (ascii ''N3w#Passw0rd''))
   \<and> get_by_id (snd (reset_password crypt_env [alice] 1 (ascii ''N3w#Passw0rd''))) 1
       = Some (alice\<lparr>hashed_password := crypt_hash (ascii ''N3w#Passw0rd''),
                      failed_login_attempts := 0, is_locked := False\<rparr>)
   \<and> \<not> fst (reset_password hex_env [alice] 1 (ascii ''N3w#Passw0rd''))"
proof -
  have mem: "alice \<in> set [alice]" "distinct (map email [alice])" "distinct (map user_id [alice])"
    "user_id alice = 1" "email alice = ascii ''alice@example.com''"
    "email_verified alice" "\<not> is_locked alice" "failed_login_attempts alice = 2"
    "verify_password crypt_env (ascii ''Secret#123'') (hashed_password alice)"
    "utc_now crypt_env = 1000"
    by code_simp+
  have hasher: "hash_password crypt_env = crypt_hash"
    by (simp add: crypt_env_def)
  have row: "update_row [alice] (alice\<lparr>failed_login_attempts := 0,
        last_login_at := Some (Datetime 1000)\<rparr>)
      = [alice\<lparr>failed_login_attempts := 0, last_login_at := Some (Datetime 1000)\<rparr>]"
    by (simp add: update_row_def)
  have ok: "validate_password (unicode_db crypt_env) (hash_password crypt_env (ascii ''N3w#Passw0rd''))
      = Inr (crypt_hash (ascii ''N3w#Passw0rd''))"
    by code_simp
  have bad: "validate_password (unicode_db hex_env) (hash_password hex_env (ascii ''N3w#Passw0rd''))
      = Inl (ValueError ''Password must contain at least one uppercase letter.'')"
    by code_simp
  from failed_login_attempts_cleared [of alice "[alice]" crypt_env "ascii ''Secret#123''"
      "ascii ''N3w#Passw0rd''"]
    failed_login_attempts_cleared [of alice "[alice]" hex_env "ascii ''Secret#123''"
      "ascii ''N3w#Passw0rd''"]
    mem hasher row ok bad
  show ?thesis by (auto simp: Let_def)
qed
text \<open>
  Claim C3. For every account of the table (emails are unique) with
  \<open>email_verified = False\<close>, \<open>login_user\<close> with its email returns no account whatever the
  password is, and the table is left as it was: no attribute of any account changes, in
  particular not \<open>failed_login_attempts\<close> and \<open>is_locked\<close>.
\<close>

theorem login_user_unverified:
  assumes "u \<in> set db" and "distinct (map email db)" and "\<not> email_verified u"
  shows "login_user E db (email u) password = (None, db)"
  using get_by_email_mem[OF assms(1,2)] assms(3) by (simp add: login_user_def)

theorem login_user_unverified_witness:
  "\<not> email_verified unverified_alice
   \<and> verify_password crypt_env (ascii ''Secret#123'') (hashed_password unverified_alice)
   \<and> login_user crypt_env [unverified_alice] (ascii ''alice@example.com'') (ascii ''Secret#123'')
       = (None, [unverified_alice])
   \<and> login_user crypt_env [unverified_alice] (ascii ''alice@example.com'') (ascii ''Wrong#123'')
       = (None, [unverified_alice])"
  using login_user_unverified [of unverified_alice "[unverified_alice]" crypt_env "ascii ''Secret#123''"]
    login_user_unverified [of unverified_alice "[unverified_alice]" crypt_env "ascii ''Wrong#123''"]
  by (simp add: unverified_alice_def alice_def crypt_env_def ascii_def)


section \<open>Password reset\<close>

text \<open>
  Claim C4. For every existing account, locked ones with failed attempts included,
  \<open>reset_password\<close> is to store the hash of the new password, set
  \<open>failed_login_attempts\<close> to 0 and \<open>is_locked\<close> to false and return true. The code
  misses this where the validator registered for \<open>hashed_password\<close>, whose rules are
  those of a password, rejects the hash. Here the account \<open>locked_alice\<close> exists, is
  locked and has 3 failed attempts, the new password meets all five rules of the
  policy, and its hash is a lowercase hexadecimal string: \<open>reset_password\<close> returns
  false, and the account keeps its lock, its counter and its old hash.
\<close>

theorem reset_password_rejects_compliant_password:
  "get_by_id [locked_alice] (user_id locked_alice) = Some locked_alice
   \<and> validate_password latin1_supplement (ascii ''N3w#Passw0rd'') = Inr (ascii ''N3w#Passw0rd'')
   \<and> validate_password latin1_supplement (hash_password hex_env (ascii ''N3w#Passw0rd''))
       = Inl (ValueError ''Password must contain at least one uppercase letter.'')
   \<and> reset_password hex_env [locked_alice] (user_id locked_alice) (ascii ''N3w#Passw0rd'')
       = (False, [locked_alice])
   \<and> is_locked locked_alice
   \<and> failed_login_attempts locked_alice = 3
   \<and> hashed_password locked_alice \<noteq> hash_password hex_env (ascii ''N3w#Passw0rd'')"
  by (simp add: reset_password_def set_hashed_password_def validate_password_def
      get_by_id_def fetch_user_def locked_alice_def alice_def hex_env_def crypt_env_def
      hex_hash_def hex_digit_def ascii_def isupper_def islower_def isdigit_def
      special_characters_def latin1_supplement_def crypt_hash_def)
section \<open>Registration\<close>

text \<open>
  Claim C7. A registration request whose (validated) email is the email of an account of
  the table creates nothing: \<open>create\<close>, and so \<open>register_user\<close>, returns \<open>None\<close> and the
  table is unchanged. Of two registrations with the same email only one succeeds: once
  a registration has returned a new account, the table is the old one followed by that
  account, and every later request with that email returns \<open>None\<close> and leaves the table
  unchanged.
\<close>

theorem create_duplicate_email:
  "(UserCreate_schema E d = Inr v \<and> u \<in> set db \<and> email u = uc_email v \<longrightarrow>
      create E db d = Some (None, db) \<and> register_user E db d = Some (None, db))
   \<and> (create E db d = Some (Some new_user, db') \<and> UserCreate_schema E' d' = Inr v'
        \<and> uc_email v' = email new_user \<longrightarrow>
      db' = db @ [new_user] \<and> get_by_email db (email new_user) = None
      \<and> get_by_email db' (email new_user) = Some new_user
      \<and> create E' db' d' = Some (None, db'))"
proof -
  have dup: "create E db d = Some (None, db)"
    if "UserCreate_schema E d = Inr v" "u \<in> set db" "email u = uc_email v"
    using create_taken[OF that(1)] get_by_email_taken[OF that(2)] that(3) by simp
  have second: "db' = db @ [new_user] \<and> get_by_email db (email new_user) = None
      \<and> get_by_email db' (email new_user) = Some new_user
      \<and> create E' db' d' = Some (None, db')"
    if first: "create E db d = Some (Some new_user, db')"
      and v': "UserCreate_schema E' d' = Inr v'" "uc_email v' = email new_user"
  proof -
    from create_success[OF first] have free: "get_by_email db (email new_user) = None"
      and db': "db' = db @ [new_user]" by auto
    from get_by_email_append[OF free] db'
    have found: "get_by_email db' (email new_user) = Some new_user" by simp
    with create_taken[OF v'(1), of db'] v'(2) have "create E' db' d' = Some (None, db')" by simp
    with free db' found show ?thesis by simp
  qed
  from dup second show ?thesis by (simp add: register_user_def)
qed

theorem create_duplicate_email_witness:
  "create crypt_env [alice] bob_data = Some (Some bob, [alice, bob])
   \<and> create crypt_env [alice, bob] bob_data = Some (None, [alice, bob])
   \<and> create hex_env [alice, bob] bob_data = Some (None, [alice, bob])"
proof -
  have first: "create crypt_env [alice] bob_data = Some (Some bob, [alice, bob])"
    by code_simp
  have schema: "UserCreate_schema crypt_env bob_data = Inr bob_request"
    by code_simp
  have schema': "UserCreate_schema hex_env bob_data = Inr bob_request"
    by code_simp
  have same: "uc_email bob_request = email bob" "bob \<in> set [alice, bob]"
    by code_simp+
  from create_duplicate_email [of crypt_env bob_data bob_request bob "[alice]" bob "[alice, bob]"
      crypt_env bob_data bob_request]
    create_duplicate_email [of hex_env bob_data bob_request bob "[alice, bob]"]
    first schema schema' same
  show ?thesis by simp
qed

section \<open>Deletion\<close>

text \<open>
  Claim C8. For an identifier that resolves to no account, \<open>delete\<close> returns false (it
  raises nothing) and the table is unchanged. For an identifier that resolves to an
  account, \<open>delete\<close> returns true, the rows with that identifier are gone and all others
  are kept, the identifier resolves to nothing afterwards, and deleting it again returns
  false and changes nothing.
\<close>

theorem delete_idempotent:
  "(get_by_id db i = None \<longrightarrow> delete db i = (False, db))
   \<and> (get_by_id db i = Some u \<longrightarrow>
        delete db i = (True, filter (\<lambda>r. user_id r \<noteq> i) db)
        \<and> get_by_id (snd (delete db i)) i = None
        \<and> delete (snd (delete db i)) i = (False, snd (delete db i)))"
proof -
  have gone: "get_by_id (filter (\<lambda>r. user_id r \<noteq> i) db) i = None"
    by (auto simp: get_by_id_def fetch_user_def find_None_iff)
  have "delete db i = (True, filter (\<lambda>r. user_id r \<noteq> i) db)" if "get_by_id db i = Some u"
    using that get_by_id_Some[OF that] by (simp add: delete_def delete_row_def)
  with gone show ?thesis by (simp add: delete_def)
qed

theorem delete_idempotent_witness:
  "delete [alice, bob] 1 = (True, [bob]) \<and> delete [bob] 1 = (False, [bob])"
proof -
  have "get_by_id [alice, bob] 1 = Some alice" "get_by_id [bob] 1 = None"
    "filter (\<lambda>r. user_id r \<noteq> 1) [alice, bob] = [bob]"
    by code_simp+
  with delete_idempotent [of "[alice, bob]" 1 alice] delete_idempotent [of "[bob]" 1]
  show ?thesis by simp
qed


section \<open>Professional status\<close>

lemma get_by_id_commit:
  "u \<in> set db \<Longrightarrow> user_id u' = user_id u
   \<Longrightarrow> get_by_id (commit t db u') (user_id u) = Some (flush t u')"
  unfolding commit_def by (rule get_by_id_update_row) (simp_all add: flush_def)

lemma commit_plain:
  "professional_status_updated_at u \<noteq> Some Func_now \<Longrightarrow> last_login_at u \<noteq> Some Func_now
   \<Longrightarrow> commit t db u = update_row db u"
  by (cases u) (auto simp: commit_def flush_def evaluate_def split: option.splits datetime.splits)

text \<open>
  Claim C9. Every change of the professional status stamps
  \<open>professional_status_updated_at\<close> with the time of the change. After
  \<open>update_professional_status u status\<close> the entity has \<open>is_professional = status\<close> and
  its \<open>professional_status_updated_at\<close> is the database's \<open>now()\<close>; once the change of
  an account of the table (one that carries no other pending expression) is committed, at
  database time \<open>t\<close>, the row stored for the account has \<open>is_professional = status\<close> and
  \<open>professional_status_updated_at = t\<close>, and every other column has the value it had
  before.
\<close>

theorem update_professional_status_stamps:
  assumes "u \<in> set db" and "last_login_at u \<noteq> Some Func_now"
  shows "is_professional (update_professional_status u status) = status
     \<and> professional_status_updated_at (update_professional_status u status) = Some Func_now
     \<and> get_by_id (commit t db (update_professional_status u status)) (user_id u)
         = Some (u\<lparr>is_professional := status,
                   professional_status_updated_at := Some (Datetime t)\<rparr>)"
proof -
  have same: "user_id (update_professional_status u status) = user_id u"
    by (simp add: update_professional_status_def)
  have "flush t (update_professional_status u status)
      = u\<lparr>is_professional := status, professional_status_updated_at := Some (Datetime t)\<rparr>"
    using assms(2)
    by (cases "last_login_at u")
      (auto simp: flush_def evaluate_def update_professional_status_def split: datetime.splits)
  with get_by_id_commit[OF assms(1) same, of t] show ?thesis
    by (simp add: update_professional_status_def)
qed

theorem update_professional_status_stamps_witness:
  "is_professional alice = False \<and> professional_status_updated_at alice = None
   \<and> get_by_id (commit 1700 [alice, bob] (update_professional_status alice True)) 1
       = Some (alice\<lparr>is_professional := True,
                      professional_status_updated_at := Some (Datetime 1700)\<rparr>)
   \<and> get_by_id (commit 1700 [alice, bob] (update_professional_status alice True)) 2 = Some bob"
proof -
  have facts: "alice \<in> set [alice, bob]"
    "last_login_at alice \<noteq> Some Func_now" "user_id alice = 1"
    "is_professional alice = False" "professional_status_updated_at alice = None"
    by code_simp+
  have other: "get_by_id (commit 1700 [alice, bob] (update_professional_status alice True)) 2 = Some bob"
    by code_simp
  from update_professional_status_stamps [of alice "[alice, bob]" True 1700] facts other
  show ?thesis by simp
qed

section \<open>What the password validator is applied to\<close>

text \<open>
  Claim C10. The complexity validator runs on the value assigned to \<open>hashed_password\<close>,
  which in \<open>create\<close> and in \<open>reset_password\<close> is the output of \<open>hash_password\<close>, never on
  the plaintext. Whenever the hash breaks one of the five rules, the validator raises a
  \<open>ValueError\<close> on it: the assignment of the hash raises that error, the construction
  of an account with that hash raises a \<open>ValueError\<close>, \<open>reset_password\<close> returns false
  and \<open>create\<close> (once it has reached the construction) returns \<open>None\<close>, both without
  changing the table, whatever the plaintext is. Whenever the hash meets the five
  rules, the assignment goes through and \<open>reset_password\<close> on an existing account
  succeeds, whatever the plaintext is.
\<close>

theorem hashed_password_is_validated:
  "(\<not> rule_holds (unicode_db E) r (hash_password E p) \<longrightarrow>
      (\<exists>m. validate_password (unicode_db E) (hash_password E p) = Inl (ValueError m)
         \<and> set_hashed_password (unicode_db E) u (hash_password E p) = Inl (ValueError m))
      \<and> (\<exists>m. User_init (unicode_db E) new_id v n (hash_password E p) = Inl (ValueError m))
      \<and> reset_password E db i p = (False, db)
      \<and> (UserCreate_schema E d = Inr v \<and> uc_password v = p
           \<and> fresh_nickname db (generate_nickname E) 0 = Some n \<longrightarrow>
         create E db d = Some (None, db)))
   \<and> ((\<forall>r. rule_holds (unicode_db E) r (hash_password E p)) \<longrightarrow>
      set_hashed_password (unicode_db E) u (hash_password E p)
        = Inr (u\<lparr>hashed_password := hash_password E p\<rparr>)
      \<and> (u \<in> set db \<and> distinct (map user_id db) \<longrightarrow> fst (reset_password E db (user_id u) p)))"
proof -
  have rejected: "(\<exists>m. validate_password (unicode_db E) (hash_password E p) = Inl (ValueError m)
         \<and> set_hashed_password (unicode_db E) u (hash_password E p) = Inl (ValueError m))
      \<and> (\<exists>m. User_init (unicode_db E) new_id v n (hash_password E p) = Inl (ValueError m))
      \<and> reset_password E db i p = (False, db)
      \<and> (UserCreate_schema E d = Inr v \<and> uc_password v = p
           \<and> fresh_nickname db (generate_nickname E) 0 = Some n \<longrightarrow>
         create E db d = Some (None, db))"
    if broken: "\<not> rule_holds (unicode_db E) r (hash_password E p)"
  proof -
    from validate_password_rejects[OF broken] obtain m
      where bad: "validate_password (unicode_db E) (hash_password E p) = Inl (ValueError m)"
      by blast
    have "create E db d = Some (None, db)"
      if "UserCreate_schema E d = Inr v" "uc_password v = p"
        "fresh_nickname db (generate_nickname E) 0 = Some n"
      using create_rejected[OF that(1,3)] bad that(2) by simp
    with reset_password_rejected[OF bad] User_init_rejected[OF bad] bad
    show ?thesis by (simp add: set_hashed_password_def)
  qed
  have accepted: "set_hashed_password (unicode_db E) u (hash_password E p)
        = Inr (u\<lparr>hashed_password := hash_password E p\<rparr>)
      \<and> (u \<in> set db \<and> distinct (map user_id db) \<longrightarrow> fst (reset_password E db (user_id u) p))"
    if meets: "\<forall>r. rule_holds (unicode_db E) r (hash_password E p)"
  proof -
    from validate_password_accepts[of "unicode_db E" "hash_password E p"] meets obtain h
      where ok: "validate_password (unicode_db E) (hash_password E p) = Inr h"
      by blast
    have "fst (reset_password E db (user_id u) p)"
      if "u \<in> set db" "distinct (map user_id db)"
      using reset_password_accepted[OF get_by_id_mem[OF that] ok] by simp
    with ok validate_password_Inr[OF ok] show ?thesis
      by (simp add: set_hashed_password_def)
  qed
  from rejected accepted show ?thesis by blast
qed

theorem hashed_password_is_validated_witness:
  "validate_password latin1_supplement (ascii ''Secret#123'') = Inr (ascii ''Secret#123'')
   \<and> \<not> rule_holds latin1_supplement Has_uppercase (hex_hash (ascii ''Secret#123''))
   \<and> reset_password hex_env [alice] 1 (ascii ''Secret#123'') = (False, [alice])
   \<and> create hex_env [alice] bob_data = Some (None, [alice])
   \<and> validate_password latin1_supplement (ascii ''abc'')
       = Inl (ValueError ''Password must be at least 8 characters long.'')
   \<and> fst (reset_password crypt_env [alice] 1 (ascii ''abc''))"
proof -
  have plain: "validate_password latin1_supplement (ascii ''Secret#123'') = Inr (ascii ''Secret#123'')"
    "validate_password latin1_supplement (ascii ''abc'')
       = Inl (ValueError ''Password must be at least 8 characters long.'')"
    by code_simp+
  have broken: "\<not> rule_holds latin1_supplement Has_uppercase (hex_hash (ascii ''Secret#123''))"
    by code_simp
  have envs: "unicode_db hex_env = latin1_supplement" "hash_password hex_env = hex_hash"
    "unicode_db crypt_env = latin1_supplement" "hash_password crypt_env = crypt_hash"
    by (simp_all add: hex_env_def crypt_env_def)
  have request: "UserCreate_schema hex_env bob_data = Inr bob_request"
    "uc_password bob_request = ascii ''Secret#123''"
    "fresh_nickname [alice] (generate_nickname hex_env) 0 = Some (ascii ''cleverfox'')"
    by code_simp+
  have meets: "rule_holds latin1_supplement Min_length (crypt_hash (ascii ''abc''))"
    "rule_holds latin1_supplement Has_uppercase (crypt_hash (ascii ''abc''))"
    "rule_holds latin1_supplement Has_lowercase (crypt_hash (ascii ''abc''))"
    "rule_holds latin1_supplement Has_digit (crypt_hash (ascii ''abc''))"
    "rule_holds latin1_supplement Has_special (crypt_hash (ascii ''abc''))"
    by code_simp+
  then have all: "\<forall>r. rule_holds latin1_supplement r (crypt_hash (ascii ''abc''))"
    by (metis policy_rule.exhaust)
  have mem: "alice \<in> set [alice]" "distinct (map user_id [alice])" "user_id alice = 1"
    by code_simp+
  from hashed_password_is_validated [of hex_env Has_uppercase "ascii ''Secret#123''"
        alice 2 bob_request "ascii ''cleverfox''" "[alice]" 1 bob_data]
    hashed_password_is_validated [of crypt_env Has_uppercase "ascii ''abc''"
        alice 2 bob_request "ascii ''cleverfox''" "[alice]" 1 bob_data]
    plain broken envs request all mem
  show ?thesis by simp
qed

end
